theory Spec2Isabelle
  imports Complex_Main
begin

section \<open>The per-frame controller of the lane-following notebooks\<close>

text \<open>
  The repository holds two notebooks whose camera callback \<open>execute\<close> turns the outputs
  of the steering model and of the collision model into the two motor values of the
  robot: \<^verbatim>\<open>src/unnamed/part_001\<close> and
  \<^verbatim>\<open>src/Data/combined_demo/khalid_aliweh/final_demo.ipynb\<close>.  Both are embedded
  here, each from its own text.

  Python floats are modelled as \<^typ>\<open>real\<close>: the development is about the control
  law on finite values, without rounding, signed zeros, infinities or NaN.
\<close>

subsection \<open>Data\<close>

text \<open>
  What the two networks deliver for one frame: \<^verbatim>\<open>xy[0]\<close>, \<^verbatim>\<open>xy[1]\<close> of the
  steering model and \<^verbatim>\<open>prob_blocked\<close> of the collision model (after softmax).
\<close>

record frame_outputs =
  xy_0 :: real
  xy_1 :: real
  prob_blocked :: real

text \<open>
  The \<^verbatim>\<open>.value\<close> of the four sliders that \<open>execute\<close> reads on each call.
\<close>

record gain_sliders =
  speed_gain_slider :: real
  steering_gain_slider :: real
  steering_dgain_slider :: real
  steering_bias_slider :: real

text \<open>
  The sliders are created with \<^verbatim>\<open>min=0.0, max=1.0\<close> (speed gain, steering gain),
  \<^verbatim>\<open>min=0.0, max=0.5\<close> (steering kd) and \<^verbatim>\<open>min=-0.3, max=0.3\<close> (steering bias);
  a slider never holds a value outside its range.
\<close>

definition sliders_in_range :: "gain_sliders \<Rightarrow> bool" where
  "sliders_in_range g \<longleftrightarrow>
     0 \<le> speed_gain_slider g \<and> speed_gain_slider g \<le> 1 \<and>
     0 \<le> steering_gain_slider g \<and> steering_gain_slider g \<le> 1 \<and>
     0 \<le> steering_dgain_slider g \<and> steering_dgain_slider g \<le> 1 / 2 \<and>
     - (3 / 10) \<le> steering_bias_slider g \<and> steering_bias_slider g \<le> 3 / 10"

text \<open>
  The state that \<open>execute\<close> changes: the globals \<^verbatim>\<open>angle\<close> and
  \<^verbatim>\<open>angle_last\<close>, and the two motor values of \<^verbatim>\<open>robot\<close>.
\<close>

record globals =
  angle :: real
  angle_last :: real
  robot_left_motor :: real
  robot_right_motor :: real

subsection \<open>Library operations used by \<open>execute\<close>\<close>

text \<open>
  \<^verbatim>\<open>np.arctan2(x1, x2)\<close>: the angle of the point with abscissa \<open>x2\<close> and ordinate
  \<open>x1\<close>, in \<open>(-pi, pi]\<close>, and \<open>0\<close> at the origin.  No branch divides by zero.
\<close>

definition arctan2 :: "real \<Rightarrow> real \<Rightarrow> real" where
  "arctan2 x1 x2 =
     (if 0 < x2 then arctan (x1 / x2)
      else if x2 < 0 then (if 0 \<le> x1 then arctan (x1 / x2) + pi else arctan (x1 / x2) - pi)
      else if 0 < x1 then pi / 2
      else if x1 < 0 then - (pi / 2)
      else 0)"

text \<open>
  Assigning \<^verbatim>\<open>slider.value = v\<close> on an \<^verbatim>\<open>ipywidgets.FloatSlider\<close> with bounds
  \<open>lo\<close> and \<open>hi\<close>: the widget caps and floors the value, so that reading
  \<^verbatim>\<open>slider.value\<close> afterwards gives the result below.
\<close>

definition slider_assign :: "real \<Rightarrow> real \<Rightarrow> real \<Rightarrow> real" where
  "slider_assign lo hi v = (if v < lo \<or> hi < v then min (max v lo) hi else v)"

text \<open>\<^verbatim>\<open>robot.stop()\<close> sets both motor values to zero.\<close>

definition robot_stop :: "globals \<Rightarrow> globals" where
  "robot_stop s = s\<lparr>robot_left_motor := 0, robot_right_motor := 0\<rparr>"

subsection \<open>\<open>execute\<close> of \<^verbatim>\<open>src/unnamed/part_001\<close>\<close>

text \<open>
  The assignments to \<^verbatim>\<open>blocked_slider\<close>, \<^verbatim>\<open>x_slider\<close>, \<^verbatim>\<open>y_slider\<close> and to the
  text fields \<^verbatim>\<open>left_motor\<close>, \<^verbatim>\<open>right_motor\<close> only display values that \<open>execute\<close>
  never reads back, and \<^verbatim>\<open>time.sleep\<close> changes no value; they are left out.
  \<^verbatim>\<open>speed_slider\<close> (range \<open>[0, 1]\<close>) and \<^verbatim>\<open>steering_slider\<close> (range \<open>[-1, 1]\<close>)
  are written and then read, so they are kept.
\<close>

definition execute_part_001 :: "gain_sliders \<Rightarrow> globals \<Rightarrow> frame_outputs \<Rightarrow> globals" where
  "execute_part_001 g s change =
     (let x = xy_0 change;
          y = (1 / 2 - xy_1 change) / 2;
          speed_slider = slider_assign 0 1 (speed_gain_slider g);
          s1 = s\<lparr>angle := arctan2 x y\<rparr>;
          pid = angle s1 * steering_gain_slider g + (angle s1 - angle_last s1) * steering_dgain_slider g;
          s2 = s1\<lparr>angle_last := angle s1\<rparr>;
          steering_slider = slider_assign (- 1) 1 (pid + steering_bias_slider g);
          left_motor_value = max (min (speed_slider + steering_slider) 1) 0;
          right_motor_value = max (min (speed_slider - steering_slider) 1) 0
      in if prob_blocked change > 4 / 10 then robot_stop s2
         else s2\<lparr>robot_left_motor := left_motor_value, robot_right_motor := right_motor_value\<rparr>)"

subsection \<open>\<open>execute\<close> of \<^verbatim>\<open>final_demo.ipynb\<close>\<close>

definition execute_final_demo :: "gain_sliders \<Rightarrow> globals \<Rightarrow> frame_outputs \<Rightarrow> globals" where
  "execute_final_demo g s change =
     (let x = xy_0 change;
          y = (1 / 2 - xy_1 change) / 2;
          speed_slider = slider_assign 0 1 (speed_gain_slider g);
          s1 = s\<lparr>angle := arctan2 x y\<rparr>;
          pid = angle s1 * steering_gain_slider g + (angle s1 - angle_last s1) * steering_dgain_slider g;
          s2 = s1\<lparr>angle_last := angle s1\<rparr>;
          steering_slider = slider_assign (- 1) 1 (pid + steering_bias_slider g);
          left_motor_value = max (min (speed_slider + steering_slider) 1) 0;
          right_motor_value = max (min (speed_slider - steering_slider) 1) 0
      in if prob_blocked change > 7 / 10 then robot_stop s2
         else s2\<lparr>robot_left_motor := left_motor_value, robot_right_motor := right_motor_value\<rparr>)"

text \<open>The command that reaches the motors: the pair of motor values.\<close>

definition motor_command :: "globals \<Rightarrow> real \<times> real" where
  "motor_command s = (robot_left_motor s, robot_right_motor s)"

text \<open>
  The values \<^verbatim>\<open>left_motor_value\<close> and \<^verbatim>\<open>right_motor_value\<close> that both versions of
  \<open>execute\<close> compute, by the same lines, before they test \<^verbatim>\<open>prob_blocked\<close>.
\<close>

definition wheel_values :: "gain_sliders \<Rightarrow> globals \<Rightarrow> frame_outputs \<Rightarrow> real \<times> real" where
  "wheel_values g s change =
     (let x = xy_0 change;
          y = (1 / 2 - xy_1 change) / 2;
          speed_slider = slider_assign 0 1 (speed_gain_slider g);
          angle = arctan2 x y;
          pid = angle * steering_gain_slider g + (angle - angle_last s) * steering_dgain_slider g;
          steering_slider = slider_assign (- 1) 1 (pid + steering_bias_slider g)
      in (max (min (speed_slider + steering_slider) 1) 0,
          max (min (speed_slider - steering_slider) 1) 0))"

subsection \<open>The notebook around \<open>execute\<close>\<close>

text \<open>
  \<open>execute\<close> is registered as observer of \<^verbatim>\<open>camera.value\<close> and is called in the
  camera's thread for each new frame, while the cells of the notebook run in the main
  thread.  Both threads write the motor values, one assignment at a time:
  \<^verbatim>\<open>robot.stop()\<close> and the last lines of \<open>execute\<close> each assign the left motor and
  then the right motor.
\<close>

datatype motor_write = Set_left real | Set_right real

fun write_motor :: "motor_write \<Rightarrow> globals \<Rightarrow> globals" where
  "write_motor (Set_left v) s = s\<lparr>robot_left_motor := v\<rparr>"
| "write_motor (Set_right v) s = s\<lparr>robot_right_motor := v\<rparr>"

text \<open>
  The state shared by the two threads: the globals, whether \<open>execute\<close> is registered,
  and the motor assignments that the call of \<open>execute\<close> in progress in the camera
  thread has still to make (none when no call is in progress).
\<close>

record notebook =
  vars :: globals
  execute_observed :: bool
  running :: "motor_write list"

text \<open>
  A new frame in the camera thread.  The thread handles one frame after the other, so
  nothing starts while a call is in progress; and only a registered \<open>execute\<close> is
  called.  The call reads the sliders, the frame and \<^verbatim>\<open>angle_last\<close>, assigns
  \<^verbatim>\<open>angle\<close> and \<^verbatim>\<open>angle_last\<close>, which no other thread touches, and is left with its
  two motor assignments: the values that \<open>execute\<close> computes from what it has read.  The
  time the call spends in the two networks is the time before these assignments are
  made.  The gain sliders may be moved between frames, so every frame comes with the
  slider values read by its call.
\<close>

definition camera_frame ::
  "(gain_sliders \<Rightarrow> globals \<Rightarrow> frame_outputs \<Rightarrow> globals) \<Rightarrow> notebook \<Rightarrow> gain_sliders \<Rightarrow> frame_outputs \<Rightarrow> notebook" where
  "camera_frame exec n g change =
     (if execute_observed n \<and> running n = [] then
        (let s' = exec g (vars n) change
         in n\<lparr>vars := s'\<lparr>robot_left_motor := robot_left_motor (vars n),
                           robot_right_motor := robot_right_motor (vars n)\<rparr>,
              running := [Set_left (robot_left_motor s'), Set_right (robot_right_motor s')]\<rparr>)
      else n)"

text \<open>The call in progress makes its next motor assignment.\<close>

definition camera_write :: "notebook \<Rightarrow> notebook" where
  "camera_write n =
     (case running n of
        [] \<Rightarrow> n
      | w # ws \<Rightarrow> n\<lparr>vars := write_motor w (vars n), running := ws\<rparr>)"

text \<open>
  The cell that ends the run, the same in both notebooks:
  \<^verbatim>\<open>camera.unobserve(execute, names='value')\<close>, \<^verbatim>\<open>time.sleep(0.1)\<close>,
  \<^verbatim>\<open>robot.stop()\<close>.  The sleep changes no value; what the camera thread does in the
  meantime is for the schedule to say.  Nothing waits for the end of a call in progress.
\<close>

datatype cell_action = Unobserve | Sleep | Motor motor_write

fun main_action :: "cell_action \<Rightarrow> notebook \<Rightarrow> notebook" where
  "main_action Unobserve n = n\<lparr>execute_observed := False\<rparr>"
| "main_action Sleep n = n"
| "main_action (Motor w) n = n\<lparr>vars := write_motor w (vars n)\<rparr>"





subsection \<open>The frame controller as the specification words it\<close>

text \<open>
  The specification describes one function \<open>process\<close> over a configuration of five
  values, the fifth being the threshold of the obstacle override, and a state that is the
  previous angle.  It is written here from the specification's steps 1 to 7, to be
  compared with the two \<open>execute\<close> functions.
\<close>

record controller_config =
  speed_gain :: real
  steering_gain :: real
  steering_kd :: real
  steering_bias :: real
  block_threshold :: real

definition clamp :: "real \<Rightarrow> real \<Rightarrow> real \<Rightarrow> real" where
  "clamp v lo hi = max lo (min v hi)"

definition process :: "controller_config \<Rightarrow> real \<Rightarrow> frame_outputs \<Rightarrow> (real \<times> real) \<times> real" where
  "process config previous_angle observation =
     (let y = (1 / 2 - xy_1 observation) / 2;
          angle = arctan2 (xy_0 observation) y;
          error_term = angle * steering_gain config + (angle - previous_angle) * steering_kd config;
          steering = error_term + steering_bias config;
          speed = speed_gain config;
          left = clamp (speed + steering) 0 1;
          right = clamp (speed - steering) 0 1
      in (if prob_blocked observation > block_threshold config then (0, 0) else (left, right),
          angle))"

text \<open>The configuration made of the four slider values and a threshold.\<close>

definition config_of :: "gain_sliders \<Rightarrow> real \<Rightarrow> controller_config" where
  "config_of g threshold =
     \<lparr>speed_gain = speed_gain_slider g, steering_gain = steering_gain_slider g,
      steering_kd = steering_dgain_slider g, steering_bias = steering_bias_slider g,
      block_threshold = threshold\<rparr>"

section \<open>Auxiliary facts\<close>

subsection \<open>\<open>arctan2\<close>\<close>

lemma arctan2_zero_left: "0 < b \<Longrightarrow> arctan2 0 b = 0"
  by (simp add: arctan2_def)

lemma arctan2_zero_right:
  "arctan2 a 0 = (if 0 < a then pi / 2 else if a < 0 then - (pi / 2) else 0)"
  by (simp add: arctan2_def)

lemma arctan2_sgn: "0 < b \<Longrightarrow> sgn (arctan2 a b) = sgn a"
  by (auto simp: arctan2_def sgn_real_def arctan_less_zero_iff zero_less_arctan_iff
      divide_less_0_iff zero_less_divide_iff)

lemma arctan2_range: "- pi < arctan2 a b \<and> arctan2 a b \<le> pi"
proof -
  have l: "- (pi / 2) < arctan (a / b)" by (rule arctan_lbound)
  have u: "arctan (a / b) < pi / 2" by (rule arctan_ubound)
  have neg: "b < 0 \<Longrightarrow> 0 \<le> a \<Longrightarrow> arctan (a / b) \<le> 0"
    by (simp add: divide_nonneg_neg)
  have pos: "b < 0 \<Longrightarrow> a < 0 \<Longrightarrow> 0 < arctan (a / b)"
    by (simp add: divide_neg_neg)
  show ?thesis
    using l u neg pos pi_gt_zero by (auto simp: arctan2_def)
qed

lemma sqrt_sum_squares_factor:
  fixes a b :: real
  assumes "b \<noteq> 0"
  shows "sqrt (a\<^sup>2 + b\<^sup>2) = \<bar>b\<bar> * sqrt (1 + (a / b)\<^sup>2)"
proof -
  have "a\<^sup>2 + b\<^sup>2 = b\<^sup>2 * (1 + (a / b)\<^sup>2)"
    using assms by (simp add: field_simps power2_eq_square)
  then show ?thesis
    by (simp add: real_sqrt_mult)
qed

text \<open>
  \<open>arctan2 a b\<close> is the polar angle of the point with abscissa \<open>b\<close> and ordinate \<open>a\<close>.
\<close>

lemma arctan2_polar:
  assumes "a \<noteq> 0 \<or> b \<noteq> 0"
  shows "a = sqrt (a\<^sup>2 + b\<^sup>2) * sin (arctan2 a b)"
    and "b = sqrt (a\<^sup>2 + b\<^sup>2) * cos (arctan2 a b)"
proof -
  have nz: "sqrt (1 + (a / b)\<^sup>2) \<noteq> 0"
    by (metis add_nonneg_eq_0_iff real_sqrt_eq_zero_cancel_iff zero_le_power2 zero_neq_one
        zero_le_one)
  show "a = sqrt (a\<^sup>2 + b\<^sup>2) * sin (arctan2 a b)"
  proof (cases "b = 0")
    case True
    with assms show ?thesis by (auto simp: arctan2_def)
  next
    case False
    then show ?thesis
      using nz by (auto simp: arctan2_def sqrt_sum_squares_factor sin_arctan cos_arctan)
  qed
  show "b = sqrt (a\<^sup>2 + b\<^sup>2) * cos (arctan2 a b)"
  proof (cases "b = 0")
    case True
    with assms show ?thesis by (auto simp: arctan2_def)
  next
    case False
    then show ?thesis
      using nz by (auto simp: arctan2_def sqrt_sum_squares_factor sin_arctan cos_arctan)
  qed
qed

subsection \<open>The sliders written and read back\<close>

lemma wheel_plus:
  "0 \<le> v \<Longrightarrow> v \<le> 1 \<Longrightarrow>
   max (min (slider_assign 0 1 v + slider_assign (- 1) 1 t) 1) 0 = max (min (v + t) 1) (0::real)"
  by (auto simp: slider_assign_def min_def max_def)

lemma wheel_minus:
  "0 \<le> v \<Longrightarrow> v \<le> 1 \<Longrightarrow>
   max (min (slider_assign 0 1 v - slider_assign (- 1) 1 t) 1) 0 = max (min (v - t) 1) (0::real)"
  by (auto simp: slider_assign_def min_def max_def)

lemma wheel_values_bounds:
  "0 \<le> fst (wheel_values g s c) \<and> fst (wheel_values g s c) \<le> 1 \<and>
   0 \<le> snd (wheel_values g s c) \<and> snd (wheel_values g s c) \<le> 1"
  by (simp add: wheel_values_def Let_def)

lemma wheel_values_in_range:
  assumes "sliders_in_range g"
  shows "wheel_values g s c =
     (let a = arctan2 (xy_0 c) ((1 / 2 - xy_1 c) / 2);
          steering = a * steering_gain_slider g + (a - angle_last s) * steering_dgain_slider g
                     + steering_bias_slider g
      in (max (min (speed_gain_slider g + steering) 1) 0,
          max (min (speed_gain_slider g - steering) 1) 0))"
  using assms
  by (simp add: wheel_values_def Let_def sliders_in_range_def wheel_plus wheel_minus)

subsection \<open>What one call of \<open>execute\<close> leaves behind\<close>

lemma motor_command_part_001:
  "motor_command (execute_part_001 g s c) =
     (if prob_blocked c > 4 / 10 then (0, 0) else wheel_values g s c)"
  by (simp add: execute_part_001_def motor_command_def wheel_values_def robot_stop_def Let_def)

lemma motor_command_final_demo:
  "motor_command (execute_final_demo g s c) =
     (if prob_blocked c > 7 / 10 then (0, 0) else wheel_values g s c)"
  by (simp add: execute_final_demo_def motor_command_def wheel_values_def robot_stop_def Let_def)

lemma angle_part_001:
  "angle (execute_part_001 g s c) = arctan2 (xy_0 c) ((1 / 2 - xy_1 c) / 2)"
  "angle_last (execute_part_001 g s c) = arctan2 (xy_0 c) ((1 / 2 - xy_1 c) / 2)"
  by (simp_all add: execute_part_001_def robot_stop_def Let_def)

lemma angle_final_demo:
  "angle (execute_final_demo g s c) = arctan2 (xy_0 c) ((1 / 2 - xy_1 c) / 2)"
  "angle_last (execute_final_demo g s c) = arctan2 (xy_0 c) ((1 / 2 - xy_1 c) / 2)"
  by (simp_all add: execute_final_demo_def robot_stop_def Let_def)

lemma motors_of_command:
  "robot_left_motor s = fst (motor_command s)" "robot_right_motor s = snd (motor_command s)"
  by (simp_all add: motor_command_def)

lemma process_of_sliders:
  assumes "sliders_in_range g"
  shows "process (config_of g t) (angle_last s) c =
    (if prob_blocked c > t then (0, 0) else wheel_values g s c,
     arctan2 (xy_0 c) ((1 / 2 - xy_1 c) / 2))"
  using assms
  by (simp add: wheel_values_in_range process_def config_of_def clamp_def Let_def max.commute
      add.assoc)

subsection \<open>The two threads\<close>

text \<open>A call that is left alone ends in the state that \<open>execute\<close> computes.\<close>

lemma call_completes:
  assumes "execute_observed n" and "running n = []"
  shows "vars (camera_write (camera_write (camera_frame exec n g c))) = exec g (vars n) c"
    and "running (camera_write (camera_write (camera_frame exec n g c))) = []"
  using assms by (simp_all add: camera_frame_def camera_write_def Let_def)


lemma main_action_running: "running (main_action a n) = running n"
  by (cases a) simp_all









lemma wheel_values_straight:
  "0 \<le> v \<Longrightarrow> v \<le> 1 \<Longrightarrow> - 1 \<le> b \<Longrightarrow> b \<le> 1 \<Longrightarrow>
   wheel_values
     \<lparr>speed_gain_slider = v, steering_gain_slider = k, steering_dgain_slider = d,
      steering_bias_slider = b\<rparr>
     \<lparr>angle = a, angle_last = 0, robot_left_motor = l, robot_right_motor = r\<rparr>
     \<lparr>xy_0 = 0, xy_1 = 0, prob_blocked = p\<rparr>
   = (max (min (v + b) 1) 0, max (min (v - b) 1) 0)"
  by (simp add: wheel_values_def arctan2_zero_left slider_assign_def Let_def)

section \<open>The claims\<close>

text \<open>
  C1.  In each notebook, when \<^verbatim>\<open>prob_blocked\<close> exceeds the threshold of that
  notebook's \<open>execute\<close> (0.4 in \<^verbatim>\<open>part_001\<close>, 0.7 in \<^verbatim>\<open>final_demo.ipynb\<close>) the
  command that reaches the motors is exactly \<open>(0, 0)\<close>, whatever the frame, the gains
  and the state are; otherwise it is the pair of left and right values computed before
  the test.
\<close>

theorem C1_obstacle_override:
  "motor_command (execute_part_001 g s c) =
     (if prob_blocked c > 4 / 10 then (0, 0) else wheel_values g s c) \<and>
   motor_command (execute_final_demo g s c) =
     (if prob_blocked c > 7 / 10 then (0, 0) else wheel_values g s c)"
  by (simp only: motor_command_part_001 motor_command_final_demo)

theorem C1_obstacle_override_witness:
  "motor_command (execute_part_001
      \<lparr>speed_gain_slider = 28 / 100, steering_gain_slider = 7 / 100,
       steering_dgain_slider = 0, steering_bias_slider = 1 / 10\<rparr>
      \<lparr>angle = 0, angle_last = 0, robot_left_motor = 1 / 2, robot_right_motor = 1 / 2\<rparr>
      \<lparr>xy_0 = 0, xy_1 = 0, prob_blocked = 6 / 10\<rparr>) = (0, 0) \<and>
   motor_command (execute_final_demo
      \<lparr>speed_gain_slider = 28 / 100, steering_gain_slider = 7 / 100,
       steering_dgain_slider = 0, steering_bias_slider = 1 / 10\<rparr>
      \<lparr>angle = 0, angle_last = 0, robot_left_motor = 1 / 2, robot_right_motor = 1 / 2\<rparr>
      \<lparr>xy_0 = 0, xy_1 = 0, prob_blocked = 6 / 10\<rparr>) = (38 / 100, 18 / 100)"
  using C1_obstacle_override
     [of "\<lparr>speed_gain_slider = 28 / 100, steering_gain_slider = 7 / 100,
           steering_dgain_slider = 0, steering_bias_slider = 1 / 10\<rparr>"
         "\<lparr>angle = 0, angle_last = 0, robot_left_motor = 1 / 2, robot_right_motor = 1 / 2\<rparr>"
         "\<lparr>xy_0 = 0, xy_1 = 0, prob_blocked = 6 / 10\<rparr>"]
  by (simp add: wheel_values_straight)

text \<open>
  C2.  After a call of \<open>execute\<close>, in either notebook and for every frame, slider
  values and state, both motor values lie between 0 and 1.
\<close>

theorem C2_motor_values_bounded:
  "0 \<le> robot_left_motor (execute_part_001 g s c) \<and>
   robot_left_motor (execute_part_001 g s c) \<le> 1 \<and>
   0 \<le> robot_right_motor (execute_part_001 g s c) \<and>
   robot_right_motor (execute_part_001 g s c) \<le> 1 \<and>
   0 \<le> robot_left_motor (execute_final_demo g s c) \<and>
   robot_left_motor (execute_final_demo g s c) \<le> 1 \<and>
   0 \<le> robot_right_motor (execute_final_demo g s c) \<and>
   robot_right_motor (execute_final_demo g s c) \<le> 1"
  using wheel_values_bounds [of g s c]
  by (simp add: motors_of_command motor_command_part_001 motor_command_final_demo)

text \<open>
  C3.  With the slider values in the ranges of their sliders and the override not firing,
  the steering is \<open>angle * steering_gain + (angle - angle_last) * steering_kd +
  steering_bias\<close> and the motors get \<open>speed_gain + steering\<close> and
  \<open>speed_gain - steering\<close>, each cut to \<open>[0, 1]\<close>: writing the speed and the steering
  to their display sliders and reading them back changes nothing in the result.
\<close>

theorem C3_drive_law:
  assumes "sliders_in_range g"
  shows "let a = arctan2 (xy_0 c) ((1 / 2 - xy_1 c) / 2);
             steering = a * steering_gain_slider g + (a - angle_last s) * steering_dgain_slider g
                        + steering_bias_slider g;
             left = max (min (speed_gain_slider g + steering) 1) 0;
             right = max (min (speed_gain_slider g - steering) 1) 0
         in (prob_blocked c \<le> 4 / 10 \<longrightarrow> motor_command (execute_part_001 g s c) = (left, right)) \<and>
            (prob_blocked c \<le> 7 / 10 \<longrightarrow> motor_command (execute_final_demo g s c) = (left, right))"
  using wheel_values_in_range [OF assms, of s c]
  by (simp add: motor_command_part_001 motor_command_final_demo Let_def)

theorem C3_drive_law_witness:
  "sliders_in_range
     \<lparr>speed_gain_slider = 1 / 2, steering_gain_slider = 1 / 10,
      steering_dgain_slider = 1 / 10, steering_bias_slider = 0\<rparr> \<and>
   motor_command (execute_part_001
      \<lparr>speed_gain_slider = 1 / 2, steering_gain_slider = 1 / 10,
       steering_dgain_slider = 1 / 10, steering_bias_slider = 0\<rparr>
      \<lparr>angle = 0, angle_last = 0, robot_left_motor = 0, robot_right_motor = 0\<rparr>
      \<lparr>xy_0 = 1, xy_1 = 1 / 2, prob_blocked = 1 / 10\<rparr>)
     = (1 / 2 + pi / 10, 1 / 2 - pi / 10) \<and>
   motor_command (execute_final_demo
      \<lparr>speed_gain_slider = 1 / 2, steering_gain_slider = 1 / 10,
       steering_dgain_slider = 1 / 10, steering_bias_slider = 0\<rparr>
      \<lparr>angle = 0, angle_last = 0, robot_left_motor = 0, robot_right_motor = 0\<rparr>
      \<lparr>xy_0 = 1, xy_1 = 1 / 2, prob_blocked = 1 / 10\<rparr>)
     = (1 / 2 + pi / 10, 1 / 2 - pi / 10)"
proof -
  have r: "sliders_in_range
     \<lparr>speed_gain_slider = 1 / 2, steering_gain_slider = 1 / 10,
      steering_dgain_slider = 1 / 10, steering_bias_slider = 0\<rparr>"
    by (simp add: sliders_in_range_def)
  have lo: "pi / 10 \<le> 1 / 2" and hi: "1 / 2 + pi / 10 \<le> 1"
    using pi_less_4 by simp_all
  have "1 / 2 - pi / 10 \<le> 1"
    using pi_gt_zero by linarith
  then have m: "min (1 / 2 - pi / 10) 1 = 1 / 2 - pi / 10"
    by (rule min_absorb1)
  show ?thesis
    using r lo hi m C3_drive_law [OF r,
        of "\<lparr>xy_0 = 1, xy_1 = 1 / 2, prob_blocked = 1 / 10\<rparr>"
           "\<lparr>angle = 0, angle_last = 0, robot_left_motor = 0, robot_right_motor = 0\<rparr>"]
    by (simp add: arctan2_zero_right Let_def)
qed

text \<open>
  C4.  \<open>execute\<close> takes \<^verbatim>\<open>xy[0]\<close> as it is for \<open>x\<close>, computes
  \<open>y = (0.5 - xy[1]) / 2\<close> and sets the global \<^verbatim>\<open>angle\<close> to \<open>arctan2 x y\<close>: an angle
  in \<open>(-pi, pi]\<close> which, unless \<open>x\<close> and \<open>y\<close> are both zero, is the polar angle of the
  target point measured from the forward axis (\<open>x\<close> is the distance to the point times
  the sine of the angle, \<open>y\<close> the distance times the cosine).
\<close>

theorem C4_angle_of_target:
  "let x = xy_0 c; y = (1 / 2 - xy_1 c) / 2
   in angle (execute_part_001 g s c) = arctan2 x y \<and>
      angle (execute_final_demo g s c) = arctan2 x y \<and>
      - pi < arctan2 x y \<and> arctan2 x y \<le> pi \<and>
      (x \<noteq> 0 \<or> y \<noteq> 0 \<longrightarrow>
         x = sqrt (x\<^sup>2 + y\<^sup>2) * sin (arctan2 x y) \<and>
         y = sqrt (x\<^sup>2 + y\<^sup>2) * cos (arctan2 x y))"
  using arctan2_range [of "xy_0 c" "(1 / 2 - xy_1 c) / 2"]
    arctan2_polar [of "xy_0 c" "(1 / 2 - xy_1 c) / 2"]
  by (simp only: Let_def angle_part_001 angle_final_demo) blast

theorem C4_angle_of_target_witness:
  "angle (execute_part_001
      \<lparr>speed_gain_slider = 28 / 100, steering_gain_slider = 7 / 100,
       steering_dgain_slider = 0, steering_bias_slider = 0\<rparr>
      \<lparr>angle = 0, angle_last = 0, robot_left_motor = 0, robot_right_motor = 0\<rparr>
      \<lparr>xy_0 = 1 / 2, xy_1 = 1 / 2, prob_blocked = 0\<rparr>) = pi / 2 \<and>
   angle (execute_final_demo
      \<lparr>speed_gain_slider = 28 / 100, steering_gain_slider = 7 / 100,
       steering_dgain_slider = 0, steering_bias_slider = 0\<rparr>
      \<lparr>angle = 0, angle_last = 0, robot_left_motor = 0, robot_right_motor = 0\<rparr>
      \<lparr>xy_0 = 1 / 2, xy_1 = 1 / 2, prob_blocked = 0\<rparr>) = pi / 2 \<and>
   (1 / 2 :: real) = sqrt ((1 / 2)\<^sup>2 + 0\<^sup>2) * sin (pi / 2) \<and>
   (0 :: real) = sqrt ((1 / 2)\<^sup>2 + 0\<^sup>2) * cos (pi / 2)"
  using C4_angle_of_target
     [of "\<lparr>xy_0 = 1 / 2, xy_1 = 1 / 2, prob_blocked = 0\<rparr>"
         "\<lparr>speed_gain_slider = 28 / 100, steering_gain_slider = 7 / 100,
       steering_dgain_slider = 0, steering_bias_slider = 0\<rparr>"
         "\<lparr>angle = 0, angle_last = 0, robot_left_motor = 0, robot_right_motor = 0\<rparr>"]
  by (simp add: arctan2_zero_right Let_def)

text \<open>
  C5.  After a call of \<open>execute\<close> the global \<^verbatim>\<open>angle_last\<close> holds the angle computed
  in that call, whether the obstacle override fired or not.
\<close>

theorem C5_angle_last_updated:
  "angle_last (execute_part_001 g s c) = arctan2 (xy_0 c) ((1 / 2 - xy_1 c) / 2) \<and>
   angle_last (execute_part_001 g s c) = angle (execute_part_001 g s c) \<and>
   angle_last (execute_final_demo g s c) = arctan2 (xy_0 c) ((1 / 2 - xy_1 c) / 2) \<and>
   angle_last (execute_final_demo g s c) = angle (execute_final_demo g s c)"
  by (simp only: angle_part_001 angle_final_demo)

theorem C5_angle_last_updated_witness:
  "angle_last (execute_part_001
      \<lparr>speed_gain_slider = 28 / 100, steering_gain_slider = 7 / 100,
       steering_dgain_slider = 0, steering_bias_slider = 0\<rparr>
      \<lparr>angle = 0, angle_last = 1, robot_left_motor = 1 / 2, robot_right_motor = 1 / 2\<rparr>
      \<lparr>xy_0 = - 1, xy_1 = 1 / 2, prob_blocked = 9 / 10\<rparr>) = - (pi / 2) \<and>
   angle_last (execute_final_demo
      \<lparr>speed_gain_slider = 28 / 100, steering_gain_slider = 7 / 100,
       steering_dgain_slider = 0, steering_bias_slider = 0\<rparr>
      \<lparr>angle = 0, angle_last = 1, robot_left_motor = 1 / 2, robot_right_motor = 1 / 2\<rparr>
      \<lparr>xy_0 = - 1, xy_1 = 1 / 2, prob_blocked = 9 / 10\<rparr>) = - (pi / 2)"
  using C5_angle_last_updated
     [of "\<lparr>speed_gain_slider = 28 / 100, steering_gain_slider = 7 / 100,
       steering_dgain_slider = 0, steering_bias_slider = 0\<rparr>"
         "\<lparr>angle = 0, angle_last = 1, robot_left_motor = 1 / 2, robot_right_motor = 1 / 2\<rparr>"
         "\<lparr>xy_0 = - 1, xy_1 = 1 / 2, prob_blocked = 9 / 10\<rparr>"]
  by (simp add: arctan2_zero_right)

text \<open>
  C6.  As stated the claim fails: the threshold is not among the values a call of
  \<open>execute\<close> receives.  With the same sliders, state and frame, at
  \<^verbatim>\<open>prob_blocked = 0.5\<close>, \<open>execute\<close> of \<^verbatim>\<open>part_001\<close> stops and \<open>execute\<close> of
  \<^verbatim>\<open>final_demo.ipynb\<close> drives, and each does so at both ends of every slider's range.
\<close>

theorem C6_threshold_parameter_counterexample:
  "motor_command (execute_part_001
      \<lparr>speed_gain_slider = 0, steering_gain_slider = 0,
       steering_dgain_slider = 0, steering_bias_slider = - (3 / 10)\<rparr>
      \<lparr>angle = 0, angle_last = 0, robot_left_motor = 0, robot_right_motor = 0\<rparr>
      \<lparr>xy_0 = 0, xy_1 = 0, prob_blocked = 1 / 2\<rparr>) = (0, 0) \<and>
   motor_command (execute_part_001
      \<lparr>speed_gain_slider = 1, steering_gain_slider = 1,
       steering_dgain_slider = 1 / 2, steering_bias_slider = 3 / 10\<rparr>
      \<lparr>angle = 0, angle_last = 0, robot_left_motor = 0, robot_right_motor = 0\<rparr>
      \<lparr>xy_0 = 0, xy_1 = 0, prob_blocked = 1 / 2\<rparr>) = (0, 0) \<and>
   motor_command (execute_final_demo
      \<lparr>speed_gain_slider = 0, steering_gain_slider = 0,
       steering_dgain_slider = 0, steering_bias_slider = - (3 / 10)\<rparr>
      \<lparr>angle = 0, angle_last = 0, robot_left_motor = 0, robot_right_motor = 0\<rparr>
      \<lparr>xy_0 = 0, xy_1 = 0, prob_blocked = 1 / 2\<rparr>) = (0, 3 / 10) \<and>
   motor_command (execute_final_demo
      \<lparr>speed_gain_slider = 1, steering_gain_slider = 1,
       steering_dgain_slider = 1 / 2, steering_bias_slider = 3 / 10\<rparr>
      \<lparr>angle = 0, angle_last = 0, robot_left_motor = 0, robot_right_motor = 0\<rparr>
      \<lparr>xy_0 = 0, xy_1 = 0, prob_blocked = 1 / 2\<rparr>) = (1, 7 / 10)"
  by (simp add: motor_command_part_001 motor_command_final_demo wheel_values_straight)

text \<open>
  C6, amended.  The threshold of the obstacle override is a constant written in each
  \<open>execute\<close>, 0.4 in \<^verbatim>\<open>part_001\<close> and 0.7 in \<^verbatim>\<open>final_demo.ipynb\<close>, the same for
  every setting of the sliders: a frame with \<^verbatim>\<open>prob_blocked\<close> at most 0.4 is driven by
  both, one above 0.7 stops both, and one in between stops \<^verbatim>\<open>part_001\<close> and is driven by
  \<^verbatim>\<open>final_demo.ipynb\<close>.
\<close>

theorem C6_threshold_constant:
  "(prob_blocked c \<le> 4 / 10 \<longrightarrow>
      motor_command (execute_part_001 g s c) = wheel_values g s c \<and>
      motor_command (execute_final_demo g s c) = wheel_values g s c) \<and>
   (4 / 10 < prob_blocked c \<and> prob_blocked c \<le> 7 / 10 \<longrightarrow>
      motor_command (execute_part_001 g s c) = (0, 0) \<and>
      motor_command (execute_final_demo g s c) = wheel_values g s c) \<and>
   (7 / 10 < prob_blocked c \<longrightarrow>
      motor_command (execute_part_001 g s c) = (0, 0) \<and>
      motor_command (execute_final_demo g s c) = (0, 0))"
  by (simp add: motor_command_part_001 motor_command_final_demo)

theorem C6_threshold_constant_witness:
  "motor_command (execute_part_001
      \<lparr>speed_gain_slider = 28 / 100, steering_gain_slider = 7 / 100,
       steering_dgain_slider = 0, steering_bias_slider = 0\<rparr>
      \<lparr>angle = 0, angle_last = 0, robot_left_motor = 0, robot_right_motor = 0\<rparr>
      \<lparr>xy_0 = 0, xy_1 = 0, prob_blocked = 4 / 10\<rparr>) = (28 / 100, 28 / 100) \<and>
   motor_command (execute_part_001
      \<lparr>speed_gain_slider = 28 / 100, steering_gain_slider = 7 / 100,
       steering_dgain_slider = 0, steering_bias_slider = 0\<rparr>
      \<lparr>angle = 0, angle_last = 0, robot_left_motor = 0, robot_right_motor = 0\<rparr>
      \<lparr>xy_0 = 0, xy_1 = 0, prob_blocked = 7 / 10\<rparr>) = (0, 0) \<and>
   motor_command (execute_final_demo
      \<lparr>speed_gain_slider = 28 / 100, steering_gain_slider = 7 / 100,
       steering_dgain_slider = 0, steering_bias_slider = 0\<rparr>
      \<lparr>angle = 0, angle_last = 0, robot_left_motor = 0, robot_right_motor = 0\<rparr>
      \<lparr>xy_0 = 0, xy_1 = 0, prob_blocked = 7 / 10\<rparr>) = (28 / 100, 28 / 100) \<and>
   motor_command (execute_final_demo
      \<lparr>speed_gain_slider = 28 / 100, steering_gain_slider = 7 / 100,
       steering_dgain_slider = 0, steering_bias_slider = 0\<rparr>
      \<lparr>angle = 0, angle_last = 0, robot_left_motor = 0, robot_right_motor = 0\<rparr>
      \<lparr>xy_0 = 0, xy_1 = 0, prob_blocked = 8 / 10\<rparr>) = (0, 0)"
  using
    C6_threshold_constant
      [of "\<lparr>xy_0 = 0, xy_1 = 0, prob_blocked = 4 / 10\<rparr>"
          "\<lparr>speed_gain_slider = 28 / 100, steering_gain_slider = 7 / 100,
            steering_dgain_slider = 0, steering_bias_slider = 0\<rparr>"
          "\<lparr>angle = 0, angle_last = 0, robot_left_motor = 0, robot_right_motor = 0\<rparr>"]
    C6_threshold_constant
      [of "\<lparr>xy_0 = 0, xy_1 = 0, prob_blocked = 7 / 10\<rparr>"
          "\<lparr>speed_gain_slider = 28 / 100, steering_gain_slider = 7 / 100,
            steering_dgain_slider = 0, steering_bias_slider = 0\<rparr>"
          "\<lparr>angle = 0, angle_last = 0, robot_left_motor = 0, robot_right_motor = 0\<rparr>"]
    C6_threshold_constant
      [of "\<lparr>xy_0 = 0, xy_1 = 0, prob_blocked = 8 / 10\<rparr>"
          "\<lparr>speed_gain_slider = 28 / 100, steering_gain_slider = 7 / 100,
            steering_dgain_slider = 0, steering_bias_slider = 0\<rparr>"
          "\<lparr>angle = 0, angle_last = 0, robot_left_motor = 0, robot_right_motor = 0\<rparr>"]
  by (simp add: wheel_values_straight)

text \<open>
  C7.  The angle is defined when \<open>y = 0\<close>: \<open>arctan2 x 0\<close> is \<open>pi / 2\<close>, \<open>- pi / 2\<close> or
  \<open>0\<close> according to the sign of \<open>x\<close>, with no quotient by \<open>y\<close> taken; for
  \<open>x = - 0.8\<close> and \<^verbatim>\<open>xy[1] = 0.5\<close> (so \<open>y = 0\<close>) \<open>execute\<close> computes the angle
  \<open>- pi / 2\<close>.
\<close>

theorem C7_angle_at_zero_forward:
  "arctan2 x 0 = (if 0 < x then pi / 2 else if x < 0 then - (pi / 2) else 0) \<and>
   angle (execute_part_001 g s \<lparr>xy_0 = x, xy_1 = 1 / 2, prob_blocked = p\<rparr>) = arctan2 x 0 \<and>
   angle (execute_final_demo g s \<lparr>xy_0 = x, xy_1 = 1 / 2, prob_blocked = p\<rparr>) = arctan2 x 0 \<and>
   angle (execute_part_001 g s \<lparr>xy_0 = - (8 / 10), xy_1 = 1 / 2, prob_blocked = p\<rparr>) = - (pi / 2) \<and>
   angle (execute_final_demo g s \<lparr>xy_0 = - (8 / 10), xy_1 = 1 / 2, prob_blocked = p\<rparr>) = - (pi / 2)"
  by (simp add: angle_part_001 angle_final_demo arctan2_zero_right)

theorem C7_angle_at_zero_forward_witness:
  "arctan2 (8 / 10) 0 = pi / 2 \<and> arctan2 0 0 = 0 \<and> arctan2 (- (8 / 10)) 0 = - (pi / 2)"
  using C7_angle_at_zero_forward [of "8 / 10", THEN conjunct1]
    C7_angle_at_zero_forward [of 0, THEN conjunct1]
    C7_angle_at_zero_forward [of "- (8 / 10)", THEN conjunct1]
  by simp

text \<open>
  C8.  When the forward distance \<open>y\<close> is positive the angle has the sign of \<open>x\<close>:
  zero for \<open>x = 0\<close>, positive for positive \<open>x\<close>, negative for negative \<open>x\<close>.
\<close>

theorem C8_angle_sign:
  assumes "0 < (1 / 2 - xy_1 c) / 2"
  shows "sgn (angle (execute_part_001 g s c)) = sgn (xy_0 c) \<and>
         sgn (angle (execute_final_demo g s c)) = sgn (xy_0 c) \<and>
         sgn (arctan2 (xy_0 c) ((1 / 2 - xy_1 c) / 2)) = sgn (xy_0 c)"
  using arctan2_sgn [OF assms, of "xy_0 c"]
  by (simp only: angle_part_001 angle_final_demo)

theorem C8_angle_sign_witness:
  "0 < (1 / 2 - xy_1 \<lparr>xy_0 = - (1 / 2), xy_1 = 3 / 10, prob_blocked = 0\<rparr>) / 2 \<and>
   sgn (angle (execute_part_001
      \<lparr>speed_gain_slider = 28 / 100, steering_gain_slider = 7 / 100,
       steering_dgain_slider = 0, steering_bias_slider = 0\<rparr>
      \<lparr>angle = 0, angle_last = 0, robot_left_motor = 0, robot_right_motor = 0\<rparr>
      \<lparr>xy_0 = - (1 / 2), xy_1 = 3 / 10, prob_blocked = 0\<rparr>)) = - 1 \<and>
   sgn (angle (execute_final_demo
      \<lparr>speed_gain_slider = 28 / 100, steering_gain_slider = 7 / 100,
       steering_dgain_slider = 0, steering_bias_slider = 0\<rparr>
      \<lparr>angle = 0, angle_last = 0, robot_left_motor = 0, robot_right_motor = 0\<rparr>
      \<lparr>xy_0 = - (1 / 2), xy_1 = 3 / 10, prob_blocked = 0\<rparr>)) = - 1"
proof -
  have h: "0 < (1 / 2 - xy_1 \<lparr>xy_0 = - (1 / 2), xy_1 = 3 / 10, prob_blocked = 0\<rparr>) / 2"
    by simp
  show ?thesis
    using h C8_angle_sign [OF h,
      of "\<lparr>speed_gain_slider = 28 / 100, steering_gain_slider = 7 / 100,
       steering_dgain_slider = 0, steering_bias_slider = 0\<rparr>"
         "\<lparr>angle = 0, angle_last = 0, robot_left_motor = 0, robot_right_motor = 0\<rparr>"]
    by simp
qed




text \<open>
  C10.  With the slider values in the ranges of their sliders, each of the two \<open>execute\<close>
  functions gives the motor command and the new \<^verbatim>\<open>angle_last\<close> that the one function
  \<open>process\<close> of the specification gives at that notebook's threshold, 0.4 for
  \<^verbatim>\<open>part_001\<close> and 0.7 for \<^verbatim>\<open>final_demo.ipynb\<close>; so the two agree on every input
  whose \<^verbatim>\<open>prob_blocked\<close> is not between the two constants, and always on the angle.
\<close>

theorem C10_variants_equal_up_to_threshold:
  assumes "sliders_in_range g"
  shows "(motor_command (execute_part_001 g s c), angle_last (execute_part_001 g s c))
           = process (config_of g (4 / 10)) (angle_last s) c \<and>
         (motor_command (execute_final_demo g s c), angle_last (execute_final_demo g s c))
           = process (config_of g (7 / 10)) (angle_last s) c \<and>
         angle_last (execute_part_001 g s c) = angle_last (execute_final_demo g s c) \<and>
         (prob_blocked c \<le> 4 / 10 \<or> 7 / 10 < prob_blocked c \<longrightarrow>
            motor_command (execute_part_001 g s c) = motor_command (execute_final_demo g s c))"
  by (simp add: process_of_sliders [OF assms] motor_command_part_001 motor_command_final_demo
      angle_part_001 angle_final_demo)

theorem C10_variants_equal_up_to_threshold_witness:
  "sliders_in_range
     \<lparr>speed_gain_slider = 1 / 2, steering_gain_slider = 1 / 5,
      steering_dgain_slider = 0, steering_bias_slider = - (1 / 10)\<rparr> \<and>
   process
     \<lparr>speed_gain = 1 / 2, steering_gain = 1 / 5, steering_kd = 0, steering_bias = - (1 / 10),
      block_threshold = 4 / 10\<rparr> 0 \<lparr>xy_0 = 0, xy_1 = 0, prob_blocked = 3 / 10\<rparr>
     = ((4 / 10, 6 / 10), 0) \<and>
   motor_command (execute_part_001
      \<lparr>speed_gain_slider = 1 / 2, steering_gain_slider = 1 / 5,
       steering_dgain_slider = 0, steering_bias_slider = - (1 / 10)\<rparr>
      \<lparr>angle = 1, angle_last = 0, robot_left_motor = 0, robot_right_motor = 0\<rparr>
      \<lparr>xy_0 = 0, xy_1 = 0, prob_blocked = 3 / 10\<rparr>) = (4 / 10, 6 / 10) \<and>
   motor_command (execute_final_demo
      \<lparr>speed_gain_slider = 1 / 2, steering_gain_slider = 1 / 5,
       steering_dgain_slider = 0, steering_bias_slider = - (1 / 10)\<rparr>
      \<lparr>angle = 1, angle_last = 0, robot_left_motor = 0, robot_right_motor = 0\<rparr>
      \<lparr>xy_0 = 0, xy_1 = 0, prob_blocked = 3 / 10\<rparr>) = (4 / 10, 6 / 10)"
proof -
  have r: "sliders_in_range
     \<lparr>speed_gain_slider = 1 / 2, steering_gain_slider = 1 / 5,
      steering_dgain_slider = 0, steering_bias_slider = - (1 / 10)\<rparr>"
    by (simp add: sliders_in_range_def)
  have p: "process
     \<lparr>speed_gain = 1 / 2, steering_gain = 1 / 5, steering_kd = 0, steering_bias = - (1 / 10),
      block_threshold = t\<rparr> 0 \<lparr>xy_0 = 0, xy_1 = 0, prob_blocked = 3 / 10\<rparr>
     = (if 3 / 10 > t then (0, 0) else (4 / 10, 6 / 10), 0)" for t
    by (simp add: process_def clamp_def arctan2_zero_left Let_def)
  show ?thesis
    using r p [of "4 / 10"] p [of "7 / 10"] C10_variants_equal_up_to_threshold [OF r,
      of "\<lparr>angle = 1, angle_last = 0, robot_left_motor = 0, robot_right_motor = 0\<rparr>"
         "\<lparr>xy_0 = 0, xy_1 = 0, prob_blocked = 3 / 10\<rparr>"]
    by (simp add: config_of_def)
qed

end
